theory Spec2Isabelle
  imports Complex_Main
begin

section \<open>Data model\<close>

text \<open>
  The accounting core of the recipe bot: the SQLite tables of \<^verbatim>\<open>database.py\<close>
  (users, recipes, payments), the in-memory rate-limit dictionary of \<^verbatim>\<open>bot.py\<close>
  and the request handler \<^verbatim>\<open>_generate_recipe_for_user\<close>.

  Conventions of the embedding.
  \<^item> A table with a primary key is a map from the key to a row record; the
    autoincrement table \<^verbatim>\<open>recipes\<close> is a list of rows in insertion order.
  \<^item> Columns of \<^verbatim>\<open>users\<close> keep their names. Columns of \<^verbatim>\<open>payments\<close> and
    \<^verbatim>\<open>recipes\<close> carry the prefix \<open>pay_\<close> and \<open>rec_\<close>, because the source
    uses the bare names (\<^verbatim>\<open>user_id\<close>, \<^verbatim>\<open>status\<close>, \<^verbatim>\<open>amount\<close>, ...) for
    function parameters as well.
  \<^item> INTEGER columns and Python integers are \<open>int\<close>. REAL columns and Python floats
    are \<open>real\<close>: sums are exact, IEEE rounding is not part of the model.
  \<^item> The payment status is the string the source stores and compares.
  \<^item> \<^verbatim>\<open>CURRENT_TIMESTAMP\<close> and \<^verbatim>\<open>datetime.now()\<close> are inputs: every function that
    reads a clock takes the reading as an argument.
  \<^item> A Python \<^verbatim>\<open>str\<close> whose length is measured (the prompt) is a list of code points.
  \<^item> Every asynchronous database function takes the world and returns its result
    paired with the world it leaves behind; a function that returns nothing returns
    the world alone, except \<^verbatim>\<open>update_payment_status\<close>, whose (empty) return value is
    kept because one property below is about what its caller can observe.
  \<^item> Storage and chat transport are taken to be reachable: their own exceptions are
    outside the model. The generation backend is fallible and its failure is a
    branch of the handler.
\<close>

type_synonym timestamp = string
type_synonym pystr = "nat list"

text \<open>The constants imported from \<^verbatim>\<open>config.py\<close>, which is not among the sources.\<close>

record config =
  FREE_RECIPES_ON_START :: int
  RATE_LIMIT_SECONDS :: real
  MAX_PROMPT_LENGTH :: int

record user_row =
  username :: string
  full_name :: string
  tokens_balance :: int
  total_spent :: real
  total_recipes :: int
  created_at :: timestamp
  last_seen :: timestamp

record recipe_row =
  rec_user_id :: int
  rec_prompt :: pystr
  rec_response :: pystr
  rec_created_at :: timestamp

record payment_row =
  pay_user_id :: int
  pay_package_key :: string
  pay_amount :: real
  pay_recipes_count :: int
  pay_status :: string
  pay_created_at :: timestamp

datatype log_level = INFO | WARNING | ERROR

datatype log_event =
    NewUser int string
  | TokensAdded int int
  | PaymentNotFound string
  | RecipesCredited int int
  | RecipeServed int pystr int
  | GenerationError int string

text \<open>
  The world: the three tables, the module-level dictionary \<^verbatim>\<open>last_request_time\<close>,
  the lines written through \<^verbatim>\<open>logger\<close>, and a ghost list of the prompts that were
  sent to the generation backend.
\<close>

record world =
  users :: "int \<rightharpoonup> user_row"
  recipes :: "recipe_row list"
  payments :: "string \<rightharpoonup> payment_row"
  last_request_time :: "int \<rightharpoonup> real"
  logged :: "(log_level \<times> log_event) list"
  backend_calls :: "pystr list"

definition logger :: "log_level \<Rightarrow> log_event \<Rightarrow> world \<Rightarrow> world" where
  "logger lvl ev w = w\<lparr>logged := logged w @ [(lvl, ev)]\<rparr>"

section \<open>database.py\<close>

text \<open>
  \<^verbatim>\<open>get_or_create_user\<close>: an existing row gets a new \<^verbatim>\<open>last_seen\<close>, \<^verbatim>\<open>username\<close> and
  \<^verbatim>\<open>full_name\<close>, and the row as it was read before the update is returned; a missing
  row is inserted with the free recipes, the column defaults 0.0 and 0, and both
  timestamps set to now.
\<close>

definition get_or_create_user ::
  "config \<Rightarrow> world \<Rightarrow> timestamp \<Rightarrow> int \<Rightarrow> string \<Rightarrow> string \<Rightarrow> user_row \<times> world" where
  "get_or_create_user cfg w now user_id new_username new_full_name =
     (case users w user_id of
        Some user \<Rightarrow>
          (user,
           w\<lparr>users := (users w)(user_id \<mapsto>
                user\<lparr>last_seen := now, username := new_username, full_name := new_full_name\<rparr>)\<rparr>)
      | None \<Rightarrow>
          (let row = \<lparr>username = new_username, full_name = new_full_name,
                      tokens_balance = FREE_RECIPES_ON_START cfg,
                      total_spent = 0, total_recipes = 0,
                      created_at = now, last_seen = now\<rparr>
           in (row, logger INFO (NewUser user_id new_username)
                      (w\<lparr>users := (users w)(user_id \<mapsto> row)\<rparr>))))"

definition get_user :: "world \<Rightarrow> int \<Rightarrow> user_row option \<times> world" where
  "get_user w user_id = (users w user_id, w)"

definition get_balance :: "world \<Rightarrow> int \<Rightarrow> int \<times> world" where
  "get_balance w user_id =
     (case get_user w user_id of
        (user, w') \<Rightarrow> ((case user of Some u \<Rightarrow> tokens_balance u | None \<Rightarrow> 0), w'))"

text \<open>
  \<^verbatim>\<open>deduct_token\<close>: one UPDATE guarded by \<^verbatim>\<open>tokens_balance > 0\<close>; the result is
  whether a row was changed.
\<close>

definition deduct_token :: "world \<Rightarrow> int \<Rightarrow> bool \<times> world" where
  "deduct_token w user_id =
     (case users w user_id of
        Some u \<Rightarrow>
          if tokens_balance u > 0
          then (True, w\<lparr>users := (users w)(user_id \<mapsto>
                   u\<lparr>tokens_balance := tokens_balance u - 1,
                     total_recipes := total_recipes u + 1\<rparr>)\<rparr>)
          else (False, w)
      | None \<Rightarrow> (False, w))"

definition add_tokens :: "world \<Rightarrow> int \<Rightarrow> int \<Rightarrow> world" where
  "add_tokens w user_id count =
     logger INFO (TokensAdded user_id count)
       (case users w user_id of
          Some u \<Rightarrow> w\<lparr>users := (users w)(user_id \<mapsto>
                       u\<lparr>tokens_balance := tokens_balance u + count\<rparr>)\<rparr>
        | None \<Rightarrow> w)"

definition save_recipe :: "world \<Rightarrow> timestamp \<Rightarrow> int \<Rightarrow> pystr \<Rightarrow> pystr \<Rightarrow> world" where
  "save_recipe w now user_id prompt response =
     w\<lparr>recipes := recipes w @
         [\<lparr>rec_user_id = user_id, rec_prompt = prompt, rec_response = response,
           rec_created_at = now\<rparr>]\<rparr>"

text \<open>\<^verbatim>\<open>save_payment\<close>: INSERT OR REPLACE with the literal status \<^verbatim>\<open>'pending'\<close>.\<close>

definition save_payment ::
  "world \<Rightarrow> timestamp \<Rightarrow> string \<Rightarrow> int \<Rightarrow> string \<Rightarrow> real \<Rightarrow> int \<Rightarrow> world" where
  "save_payment w now payment_id user_id package_key amount recipes_count =
     w\<lparr>payments := (payments w)(payment_id \<mapsto>
         \<lparr>pay_user_id = user_id, pay_package_key = package_key, pay_amount = amount,
          pay_recipes_count = recipes_count, pay_status = ''pending'',
          pay_created_at = now\<rparr>)\<rparr>"

text \<open>
  \<^verbatim>\<open>update_payment_status\<close>: a missing payment is logged and the function returns;
  otherwise the user row of the payment is credited when the new status is
  \<^verbatim>\<open>"succeeded"\<close> and the stored one is \<^verbatim>\<open>"pending"\<close> (an UPDATE, so nothing
  happens to a user that has no row, while the log line is written all the same),
  and the new status is stored in every case. \<open>credit_user\<close> is the UPDATE
  statement on \<^verbatim>\<open>users\<close> that the function executes in that branch.
\<close>

definition credit_user :: "world \<Rightarrow> int \<Rightarrow> int \<Rightarrow> real \<Rightarrow> world" where
  "credit_user w user_id recipes_count amount =
     (case users w user_id of
        Some u \<Rightarrow> w\<lparr>users := (users w)(user_id \<mapsto>
                     u\<lparr>tokens_balance := tokens_balance u + recipes_count,
                       total_spent := total_spent u + amount\<rparr>)\<rparr>
      | None \<Rightarrow> w)"

definition update_payment_status :: "world \<Rightarrow> string \<Rightarrow> string \<Rightarrow> unit \<times> world" where
  "update_payment_status w payment_id status =
     (case payments w payment_id of
        None \<Rightarrow> ((), logger WARNING (PaymentNotFound payment_id) w)
      | Some row \<Rightarrow>
          (let w1 = (if status = ''succeeded'' \<and> pay_status row = ''pending''
                     then logger INFO (RecipesCredited (pay_recipes_count row) (pay_user_id row))
                            (credit_user w (pay_user_id row) (pay_recipes_count row) (pay_amount row))
                     else w);
               w2 = w1\<lparr>payments := (payments w1)(payment_id \<mapsto> row\<lparr>pay_status := status\<rparr>)\<rparr>
           in ((), w2)))"

section \<open>bot.py: the rate limiter\<close>

text \<open>
  \<^verbatim>\<open>check_rate_limit\<close>: times are seconds; \<^verbatim>\<open>int(wait)\<close> truncates towards zero,
  which on the branch \<^verbatim>\<open>wait > 0\<close> is the floor.
\<close>

definition check_rate_limit :: "config \<Rightarrow> world \<Rightarrow> real \<Rightarrow> int \<Rightarrow> int" where
  "check_rate_limit cfg w now user_id =
     (case last_request_time w user_id of
        Some t \<Rightarrow>
          (let elapsed = now - t;
               wait = RATE_LIMIT_SECONDS cfg - elapsed
           in if wait > 0 then \<lfloor>wait\<rfloor> + 1 else 0)
      | None \<Rightarrow> 0)"

definition update_rate_limit :: "world \<Rightarrow> real \<Rightarrow> int \<Rightarrow> world" where
  "update_rate_limit w now user_id =
     w\<lparr>last_request_time := (last_request_time w)(user_id \<mapsto> now)\<rparr>"

section \<open>bot.py: the request handler\<close>

text \<open>
  \<^verbatim>\<open>_generate_recipe_for_user\<close>. What the handler tells the user is the \<open>outcome\<close>;
  the texts, keyboards and pictures are left out. The environment of one request
  holds the two readings of \<^verbatim>\<open>datetime.now()\<close> (in \<^verbatim>\<open>check_rate_limit\<close> and in
  \<^verbatim>\<open>update_rate_limit\<close>), the database timestamp of \<^verbatim>\<open>save_recipe\<close>, and the
  generation backend \<^verbatim>\<open>ai.generate_recipe\<close>, which either raises (\<open>Inl\<close> the
  message of the exception) or returns the recipe. A request runs from start to end
  on the world it is given; the branch for a balance drained while the recipe was
  generated is kept as the source has it.
\<close>

datatype outcome =
    TooLong
  | RateLimited int
  | InsufficientBalance
  | DrainedDuringGeneration
  | Fulfilled pystr int
  | GenerationFailed string

record env =
  now_check :: real
  now_stamp :: real
  now_db :: timestamp
  backend :: "pystr \<Rightarrow> string + pystr"

definition generate_recipe_for_user ::
  "config \<Rightarrow> env \<Rightarrow> world \<Rightarrow> int \<Rightarrow> pystr \<Rightarrow> outcome \<times> world" where
  "generate_recipe_for_user cfg e w user_id user_input =
     (if int (length user_input) > MAX_PROMPT_LENGTH cfg then (TooLong, w)
      else
        (let wait_seconds = check_rate_limit cfg w (now_check e) user_id in
         if wait_seconds > 0 then (RateLimited wait_seconds, w)
         else
           (case get_balance w user_id of
              (balance, w0) \<Rightarrow>
                if balance \<le> 0 then (InsufficientBalance, w0)
                else
                  (let w1 = update_rate_limit w0 (now_stamp e) user_id;
                       w2 = w1\<lparr>backend_calls := backend_calls w1 @ [user_input]\<rparr>
                   in case backend e user_input of
                        Inl err \<Rightarrow>
                          (GenerationFailed err, logger ERROR (GenerationError user_id err) w2)
                      | Inr recipe \<Rightarrow>
                          (case deduct_token w2 user_id of
                             (success, w3) \<Rightarrow>
                               if \<not> success then (DrainedDuringGeneration, w3)
                               else
                                 (let w4 = save_recipe w3 (now_db e) user_id user_input recipe
                                  in case get_balance w4 user_id of
                                       (new_balance, w5) \<Rightarrow>
                                         (Fulfilled recipe new_balance,
                                          logger INFO
                                            (RecipeServed user_id user_input new_balance) w5)))))))"

section \<open>Drivers and sample data\<close>

text \<open>\<open>k\<close> calls of \<^verbatim>\<open>deduct_token\<close> for one user, one after the other, with their results.\<close>

fun deduct_tokens :: "world \<Rightarrow> int \<Rightarrow> nat \<Rightarrow> bool list \<times> world" where
  "deduct_tokens w user_id 0 = ([], w)"
| "deduct_tokens w user_id (Suc k) =
     (case deduct_token w user_id of
        (ok, w') \<Rightarrow>
          (case deduct_tokens w' user_id k of
             (oks, w'') \<Rightarrow> (ok # oks, w'')))"

definition sample_config :: config where
  "sample_config =
     \<lparr>FREE_RECIPES_ON_START = 3, RATE_LIMIT_SECONDS = 30, MAX_PROMPT_LENGTH = 500\<rparr>"

definition empty_world :: world where
  "empty_world =
     \<lparr>users = Map.empty, recipes = [], payments = Map.empty,
      last_request_time = Map.empty, logged = [], backend_calls = []\<rparr>"

definition sample_user :: user_row where
  "sample_user =
     \<lparr>username = ''cook'', full_name = ''Sample Cook'', tokens_balance = 3,
      total_spent = 0, total_recipes = 0,
      created_at = ''2026-01-01 10:00:00'', last_seen = ''2026-01-01 10:00:00''\<rparr>"

definition sample_payment :: payment_row where
  "sample_payment =
     \<lparr>pay_user_id = 7, pay_package_key = ''standard'', pay_amount = 199,
      pay_recipes_count = 10, pay_status = ''pending'',
      pay_created_at = ''2026-01-01 10:05:00''\<rparr>"

text \<open>User 7 with three recipes and one pending payment of 199 for 10 recipes.\<close>

definition sample_world :: world where
  "sample_world =
     empty_world\<lparr>users := [7 \<mapsto> sample_user], payments := [''pay-1'' \<mapsto> sample_payment]\<rparr>"


definition ok_backend :: "pystr \<Rightarrow> string + pystr" where
  "ok_backend prompt = Inr (prompt @ [33])"

definition failing_backend :: "pystr \<Rightarrow> string + pystr" where
  "failing_backend prompt = Inl ''timeout''"

definition sample_env :: "real \<Rightarrow> (pystr \<Rightarrow> string + pystr) \<Rightarrow> env" where
  "sample_env t b =
     \<lparr>now_check = t, now_stamp = t + 1, now_db = ''2026-01-01 10:10:00'', backend = b\<rparr>"

section \<open>Basic facts\<close>

lemma logger_fields [simp]:
  "users (logger l ev w) = users w"
  "payments (logger l ev w) = payments w"
  "last_request_time (logger l ev w) = last_request_time w"
  "backend_calls (logger l ev w) = backend_calls w"
  "recipes (logger l ev w) = recipes w"
  by (simp_all add: logger_def)

lemma deduct_token_success:
  "users w user_id = Some u \<Longrightarrow> 0 < tokens_balance u \<Longrightarrow>
   deduct_token w user_id =
     (True, w\<lparr>users := (users w)(user_id \<mapsto>
               u\<lparr>tokens_balance := tokens_balance u - 1, total_recipes := total_recipes u + 1\<rparr>)\<rparr>)"
  by (simp add: deduct_token_def)

lemma deduct_token_refused:
  "fst (get_balance w user_id) \<le> 0 \<Longrightarrow> deduct_token w user_id = (False, w)"
  by (cases "users w user_id") (simp_all add: deduct_token_def get_balance_def get_user_def)

lemma deduct_token_True_iff:
  "fst (deduct_token w user_id) \<longleftrightarrow> 0 < fst (get_balance w user_id)"
  by (cases "users w user_id") (simp_all add: deduct_token_def get_balance_def get_user_def)

lemma deduct_tokens_empty:
  "users w user_id = Some u \<Longrightarrow> tokens_balance u \<le> 0 \<Longrightarrow>
   deduct_tokens w user_id k = (replicate k False, w)"
  by (induction k) (simp_all add: deduct_token_def)

text \<open>
  The run of \<open>k\<close> debits, by induction on \<open>k\<close> with the world and the row
  generalised: a positive balance pays for the first call and leaves a row with one
  recipe less, an empty one refuses every call.
\<close>

lemma deduct_tokens_run:
  "users w user_id = Some u \<Longrightarrow> 0 \<le> tokens_balance u \<Longrightarrow>
   fst (deduct_tokens w user_id k)
     = replicate (min k (nat (tokens_balance u))) True @ replicate (k - nat (tokens_balance u)) False
   \<and> users (snd (deduct_tokens w user_id k)) user_id
     = Some (u\<lparr>tokens_balance := tokens_balance u - int (min k (nat (tokens_balance u))),
               total_recipes := total_recipes u + int (min k (nat (tokens_balance u)))\<rparr>)"
proof (induction k arbitrary: w u)
  case 0
  then show ?case by simp
next
  case (Suc k)
  show ?case
  proof (cases "tokens_balance u = 0")
    case True
    with Suc.prems show ?thesis
      using deduct_tokens_empty [of w user_id u "Suc k"] by simp
  next
    case False
    with Suc.prems have pos: "0 < tokens_balance u" by simp
    let ?u' = "u\<lparr>tokens_balance := tokens_balance u - 1, total_recipes := total_recipes u + 1\<rparr>"
    let ?w' = "w\<lparr>users := (users w)(user_id \<mapsto> ?u')\<rparr>"
    have step: "deduct_token w user_id = (True, ?w')"
      using Suc.prems(1) pos by (rule deduct_token_success)
    have u': "users ?w' user_id = Some ?u'" by simp
    have nn: "0 \<le> tokens_balance ?u'" using pos by simp
    define m where "m = nat (tokens_balance u - 1)"
    have nat_eq: "nat (tokens_balance u) = Suc m"
      using pos by (simp add: m_def)
    have IH: "fst (deduct_tokens ?w' user_id k) = replicate (min k m) True @ replicate (k - m) False"
      "users (snd (deduct_tokens ?w' user_id k)) user_id
         = Some (?u'\<lparr>tokens_balance := tokens_balance ?u' - int (min k m),
                      total_recipes := total_recipes ?u' + int (min k m)\<rparr>)"
      using Suc.IH [OF u' nn] by (simp_all add: m_def)
    have unfold: "deduct_tokens w user_id (Suc k)
        = (True # fst (deduct_tokens ?w' user_id k), snd (deduct_tokens ?w' user_id k))"
      by (simp add: step split: prod.splits)
    show ?thesis
      unfolding unfold fst_conv snd_conv IH nat_eq by simp
  qed
qed

text \<open>A request from a user without recipes stops at one of the first three checks.\<close>

lemma rejected_without_balance:
  assumes "fst (get_balance w user_id) \<le> 0"
  shows "generate_recipe_for_user cfg e w user_id user_input =
     ((if int (length user_input) > MAX_PROMPT_LENGTH cfg then TooLong
       else if check_rate_limit cfg w (now_check e) user_id > 0
            then RateLimited (check_rate_limit cfg w (now_check e) user_id)
            else InsufficientBalance), w)"
  using assms
  by (simp add: generate_recipe_for_user_def Let_def get_balance_def get_user_def)

text \<open>A fulfilled request found a row with a positive balance and took one recipe from it.\<close>

lemma fulfilled_step:
  assumes "generate_recipe_for_user cfg e w user_id user_input = (Fulfilled r b, w')"
  shows "\<exists>u. users w user_id = Some u \<and> 0 < tokens_balance u
           \<and> users w' user_id = Some (u\<lparr>tokens_balance := tokens_balance u - 1,
                                         total_recipes := total_recipes u + 1\<rparr>)"
proof (cases "users w user_id")
  case None
  with assms show ?thesis
    by (simp add: generate_recipe_for_user_def Let_def get_balance_def get_user_def
          split: if_splits)
next
  case (Some u)
  with assms show ?thesis
    by (auto simp add: generate_recipe_for_user_def Let_def get_balance_def get_user_def
          update_rate_limit_def deduct_token_def save_recipe_def
          split: if_splits sum.splits)
qed

lemma fulfilled_balance:
  assumes "generate_recipe_for_user cfg e w user_id user_input = (Fulfilled r b, w')"
  shows "fst (get_balance w' user_id) = fst (get_balance w user_id) - 1"
  using fulfilled_step [OF assms] by (auto simp add: get_balance_def get_user_def)

section \<open>Payment settlement\<close>




text \<open>
  Claim C4. For every payment id, \<^verbatim>\<open>update_payment_status\<close> with \<^verbatim>\<open>"succeeded"\<close>
  after a call with \<^verbatim>\<open>"canceled"\<close> credits nobody: neither call changes the
  \<^verbatim>\<open>users\<close> table, so every balance and every \<^verbatim>\<open>total_spent\<close> is as before, while
  the status of an existing record ends as \<^verbatim>\<open>succeeded\<close>.
\<close>

theorem late_success_after_cancel_no_credit:
  "let w1 = snd (update_payment_status w payment_id ''canceled'');
       w2 = snd (update_payment_status w1 payment_id ''succeeded'')
   in users w1 = users w \<and> users w2 = users w1
    \<and> map_option pay_status (payments w2 payment_id)
        = (if payments w payment_id = None then None else Some ''succeeded'')"
  by (auto simp add: update_payment_status_def credit_user_def Let_def split: option.splits)

theorem late_success_after_cancel_no_credit_witness:
  "let w1 = snd (update_payment_status sample_world ''pay-1'' ''canceled'');
       w2 = snd (update_payment_status w1 ''pay-1'' ''succeeded'')
   in users w1 = users sample_world \<and> users w2 = users w1
    \<and> fst (get_balance w2 7) = 3
    \<and> map_option total_spent (users w2 7) = Some 0
    \<and> map_option pay_status (payments w1 ''pay-1'') = Some ''canceled''
    \<and> map_option pay_status (payments w2 ''pay-1'') = Some ''succeeded''"
  using late_success_after_cancel_no_credit [of sample_world "''pay-1''"]
  by (simp add: Let_def sample_world_def empty_world_def sample_user_def sample_payment_def
        update_payment_status_def get_balance_def get_user_def)

text \<open>
  Claim C8 (amended). For a payment id without a record, \<^verbatim>\<open>update_payment_status\<close>
  changes no user row and no payment record; it writes one warning
  (payment not found) to the log and returns nothing, exactly as it does after a
  settlement of an existing record, so the condition is not passed to the caller.
\<close>

theorem settle_missing_payment_logs_only:
  "payments w payment_id = None \<Longrightarrow>
   update_payment_status w payment_id status
     = ((), w\<lparr>logged := logged w @ [(WARNING, PaymentNotFound payment_id)]\<rparr>)"
  by (simp add: update_payment_status_def logger_def)

theorem settle_missing_payment_logs_only_witness:
  "payments empty_world ''pay-404'' = None
   \<and> update_payment_status empty_world ''pay-404'' ''succeeded''
     = ((), empty_world\<lparr>logged := [(WARNING, PaymentNotFound ''pay-404'')]\<rparr>)"
  using settle_missing_payment_logs_only [of empty_world "''pay-404''" "''succeeded''"]
  by (simp add: empty_world_def)

text \<open>
  The claim as first stated has the missing record surfaced to the caller. The value
  returned for the unknown \<^verbatim>\<open>pay-404\<close> is the value returned for the stored
  \<^verbatim>\<open>pay-1\<close>; the only trace is the log line.
\<close>

theorem settle_missing_payment_returns_like_found:
  "payments empty_world ''pay-404'' = None
   \<and> payments sample_world ''pay-1'' = Some sample_payment
   \<and> fst (update_payment_status empty_world ''pay-404'' ''succeeded'')
       = fst (update_payment_status sample_world ''pay-1'' ''succeeded'')
   \<and> logged (snd (update_payment_status empty_world ''pay-404'' ''succeeded''))
       = [(WARNING, PaymentNotFound ''pay-404'')]"
  by (simp add: empty_world_def sample_world_def update_payment_status_def logger_def)

text \<open>
  Claim C10. \<^verbatim>\<open>save_payment\<close> stores a \<^verbatim>\<open>pending\<close> record under the payment id
  whatever was stored there before. So for a pending payment of a user with a row,
  the sequence settle as succeeded, \<^verbatim>\<open>save_payment\<close> for the same id and user, settle
  as succeeded credits the user twice: after the first settlement the record is
  \<^verbatim>\<open>succeeded\<close> and the row is credited once, after the third step the row holds both
  credits.
\<close>

theorem save_payment_resets_to_pending:
  "payments (save_payment w now payment_id user_id package_key amount recipes_count) payment_id
     = Some \<lparr>pay_user_id = user_id, pay_package_key = package_key, pay_amount = amount,
             pay_recipes_count = recipes_count, pay_status = ''pending'', pay_created_at = now\<rparr>
   \<and> (payments w payment_id = Some p \<and> pay_status p = ''pending'' \<and> pay_user_id p = user_id
        \<and> users w user_id = Some u \<longrightarrow>
       (let w1 = snd (update_payment_status w payment_id ''succeeded'');
            w2 = save_payment w1 now payment_id user_id package_key amount recipes_count;
            w3 = snd (update_payment_status w2 payment_id ''succeeded'')
        in map_option pay_status (payments w1 payment_id) = Some ''succeeded''
         \<and> users w1 user_id
             = Some (u\<lparr>tokens_balance := tokens_balance u + pay_recipes_count p,
                       total_spent := total_spent u + pay_amount p\<rparr>)
         \<and> users w3 user_id
             = Some (u\<lparr>tokens_balance := tokens_balance u + pay_recipes_count p + recipes_count,
                       total_spent := total_spent u + pay_amount p + amount\<rparr>)))"
  by (simp add: save_payment_def update_payment_status_def credit_user_def Let_def)

theorem save_payment_resets_to_pending_witness:
  "payments sample_world ''pay-1'' = Some sample_payment
   \<and> pay_status sample_payment = ''pending'' \<and> pay_user_id sample_payment = 7
   \<and> users sample_world 7 = Some sample_user
   \<and> (let w1 = snd (update_payment_status sample_world ''pay-1'' ''succeeded'');
           w2 = save_payment w1 ''2026-01-01 11:00:00'' ''pay-1'' 7 ''standard'' 199 10;
           w3 = snd (update_payment_status w2 ''pay-1'' ''succeeded'')
       in map_option pay_status (payments w1 ''pay-1'') = Some ''succeeded''
        \<and> map_option pay_status (payments w2 ''pay-1'') = Some ''pending''
        \<and> fst (get_balance w1 7) = 13
        \<and> fst (get_balance w3 7) = 23
        \<and> map_option total_spent (users w3 7) = Some 398)"
  using save_payment_resets_to_pending
    [of sample_world "''2026-01-01 11:00:00''" "''pay-1''" 7 "''standard''" 199 10
        sample_payment sample_user]
  by (simp add: Let_def sample_world_def empty_world_def sample_user_def sample_payment_def
        get_balance_def get_user_def save_payment_def)

section \<open>Balance store\<close>

text \<open>
  Claim C2. For a user row with balance \<open>b > 0\<close>, \<open>k\<close> calls of \<^verbatim>\<open>deduct_token\<close>
  return \<^verbatim>\<open>True\<close> for the first \<open>min k b\<close> calls and \<^verbatim>\<open>False\<close> for the rest, and leave
  the balance \<open>b - min k b\<close> and \<^verbatim>\<open>total_recipes\<close> raised by \<open>min k b\<close>: \<open>k\<close> successes
  and balance \<open>b - k\<close> when \<open>k \<le> b\<close>, \<open>b\<close> successes and balance 0 when \<open>k > b\<close>.
  A call that returns \<^verbatim>\<open>True\<close> found a positive balance, lowered it by exactly 1 and
  raised \<^verbatim>\<open>total_recipes\<close> by exactly 1; a call on a balance \<open>\<le> 0\<close> returns \<^verbatim>\<open>False\<close>
  and changes nothing.
\<close>

theorem deduct_token_k_attempts:
  "(users w user_id = Some u \<and> 0 < tokens_balance u \<longrightarrow>
      (let b = nat (tokens_balance u);
           (results, w') = deduct_tokens w user_id k
       in results = replicate (min k b) True @ replicate (k - b) False
        \<and> length (filter id results) = min k b
        \<and> fst (get_balance w' user_id) = tokens_balance u - int (min k b)
        \<and> map_option total_recipes (users w' user_id) = Some (total_recipes u + int (min k b))))
   \<and> (fst (deduct_token w user_id) \<longrightarrow>
        0 < fst (get_balance w user_id)
      \<and> fst (get_balance (snd (deduct_token w user_id)) user_id) = fst (get_balance w user_id) - 1
      \<and> map_option total_recipes (users (snd (deduct_token w user_id)) user_id)
          = map_option (\<lambda>n. n + 1) (map_option total_recipes (users w user_id)))
   \<and> (fst (get_balance w user_id) \<le> 0 \<longrightarrow> deduct_token w user_id = (False, w))"
proof (intro conjI impI)
  assume a: "users w user_id = Some u \<and> 0 < tokens_balance u"
  then have run: "fst (deduct_tokens w user_id k)
     = replicate (min k (nat (tokens_balance u))) True @ replicate (k - nat (tokens_balance u)) False
   \<and> users (snd (deduct_tokens w user_id k)) user_id
     = Some (u\<lparr>tokens_balance := tokens_balance u - int (min k (nat (tokens_balance u))),
               total_recipes := total_recipes u + int (min k (nat (tokens_balance u)))\<rparr>)"
    using deduct_tokens_run [of w user_id u k] by simp
  then show "let b = nat (tokens_balance u);
           (results, w') = deduct_tokens w user_id k
       in results = replicate (min k b) True @ replicate (k - b) False
        \<and> length (filter id results) = min k b
        \<and> fst (get_balance w' user_id) = tokens_balance u - int (min k b)
        \<and> map_option total_recipes (users w' user_id) = Some (total_recipes u + int (min k b))"
    by (simp add: Let_def case_prod_beta get_balance_def get_user_def)
next
  assume "fst (deduct_token w user_id)"
  then show "0 < fst (get_balance w user_id)" by (simp add: deduct_token_True_iff)
next
  assume "fst (deduct_token w user_id)"
  then show "fst (get_balance (snd (deduct_token w user_id)) user_id) = fst (get_balance w user_id) - 1"
    by (auto simp add: deduct_token_def get_balance_def get_user_def split: option.splits if_splits)
next
  assume "fst (deduct_token w user_id)"
  then show "map_option total_recipes (users (snd (deduct_token w user_id)) user_id)
          = map_option (\<lambda>n. n + 1) (map_option total_recipes (users w user_id))"
    by (auto simp add: deduct_token_def split: option.splits if_splits)
next
  assume "fst (get_balance w user_id) \<le> 0"
  then show "deduct_token w user_id = (False, w)" by (rule deduct_token_refused)
qed

theorem deduct_token_k_attempts_witness:
  "users sample_world 7 = Some sample_user \<and> 0 < tokens_balance sample_user
   \<and> (let (results, w') = deduct_tokens sample_world 7 2
       in results = [True, True] \<and> fst (get_balance w' 7) = 1
        \<and> map_option total_recipes (users w' 7) = Some 2)
   \<and> (let (results, w') = deduct_tokens sample_world 7 5
       in results = [True, True, True, False, False] \<and> fst (get_balance w' 7) = 0
        \<and> map_option total_recipes (users w' 7) = Some 3)
   \<and> fst (deduct_token sample_world 7)
   \<and> fst (get_balance (snd (deduct_token sample_world 7)) 7) = 2
   \<and> fst (get_balance empty_world 7) \<le> 0
   \<and> deduct_token empty_world 7 = (False, empty_world)"
proof -
  have h: "users sample_world 7 = Some sample_user \<and> 0 < tokens_balance sample_user"
    by (simp add: sample_world_def empty_world_def sample_user_def)
  have d: "fst (deduct_token sample_world 7)"
    by (simp add: deduct_token_def sample_world_def empty_world_def sample_user_def)
  have z: "fst (get_balance empty_world 7) \<le> 0"
    by (simp add: get_balance_def get_user_def empty_world_def)
  have b: "fst (get_balance sample_world 7) = 3" "tokens_balance sample_user = 3"
    "total_recipes sample_user = 0"
    by (simp_all add: get_balance_def get_user_def sample_world_def empty_world_def sample_user_def)
  show ?thesis
    using h d z b deduct_token_k_attempts [of sample_world 7 sample_user 2]
      deduct_token_k_attempts [of sample_world 7 sample_user 5]
      deduct_token_k_attempts [of empty_world 7 sample_user 0]
    by (simp add: Let_def case_prod_beta eval_nat_numeral)
qed

text \<open>
  Claim C3 (amended). For a user id without a row, \<^verbatim>\<open>get_balance\<close> returns 0, whatever
  \<^verbatim>\<open>FREE_RECIPES_ON_START\<close> is, and leaves the world as it was: the read creates no row.
\<close>

theorem get_balance_unseen_is_zero:
  "users w user_id = None \<Longrightarrow> get_balance w user_id = (0, w)"
  by (simp add: get_balance_def get_user_def)

theorem get_balance_unseen_is_zero_witness:
  "users empty_world 7 = None \<and> get_balance empty_world 7 = (0, empty_world)"
  using get_balance_unseen_is_zero [of empty_world 7] by (simp add: empty_world_def)

text \<open>
  The claim as first stated has the read return the configured starting balance. With
  three free recipes configured, the balance read for the unseen user 7 is 0, not 3.
\<close>

theorem get_balance_unseen_not_default:
  "users empty_world 7 = None
   \<and> FREE_RECIPES_ON_START sample_config = 3
   \<and> fst (get_balance empty_world 7) = 0
   \<and> fst (get_balance empty_world 7) \<noteq> FREE_RECIPES_ON_START sample_config"
  by (simp add: empty_world_def get_balance_def get_user_def sample_config_def)

text \<open>
  Claim C9. For a user id without a row, \<^verbatim>\<open>get_or_create_user\<close> stores and returns a
  row whose balance is \<^verbatim>\<open>FREE_RECIPES_ON_START\<close>. For a user id with a row, the call
  returns that row and leaves its balance, \<^verbatim>\<open>total_recipes\<close> and \<^verbatim>\<open>total_spent\<close> as
  they were.
\<close>

theorem get_or_create_user_grant:
  "(users w user_id = None \<longrightarrow>
      (let (row, w') = get_or_create_user cfg w now user_id new_username new_full_name
       in users w' user_id = Some row
        \<and> tokens_balance row = FREE_RECIPES_ON_START cfg))
   \<and> (users w user_id = Some u \<longrightarrow>
      (let (row, w') = get_or_create_user cfg w now user_id new_username new_full_name
       in row = u
        \<and> map_option tokens_balance (users w' user_id) = Some (tokens_balance u)
        \<and> map_option total_recipes (users w' user_id) = Some (total_recipes u)
        \<and> map_option total_spent (users w' user_id) = Some (total_spent u)))"
  by (simp add: get_or_create_user_def Let_def)

theorem get_or_create_user_grant_witness:
  "users empty_world 7 = None
   \<and> (let (row, w') = get_or_create_user sample_config empty_world ''2026-01-01 10:00:00'' 7
                         ''cook'' ''Sample Cook''
      in row = sample_user \<and> users w' 7 = Some sample_user \<and> tokens_balance row = 3)
   \<and> users sample_world 7 = Some sample_user
   \<and> (let (row, w') = get_or_create_user sample_config sample_world ''2026-02-02 12:00:00'' 7
                         ''chef'' ''Renamed Cook''
      in row = sample_user
       \<and> map_option tokens_balance (users w' 7) = Some 3
       \<and> map_option total_recipes (users w' 7) = Some 0
       \<and> map_option total_spent (users w' 7) = Some 0
       \<and> map_option username (users w' 7) = Some ''chef'')"
  using get_or_create_user_grant
      [of empty_world 7 sample_config "''2026-01-01 10:00:00''" "''cook''" "''Sample Cook''"
          sample_user]
    get_or_create_user_grant
      [of sample_world 7 sample_config "''2026-02-02 12:00:00''" "''chef''" "''Renamed Cook''"
          sample_user]
  by (simp add: Let_def sample_world_def empty_world_def sample_user_def sample_config_def
        get_or_create_user_def logger_def)

section \<open>Rate limiter\<close>

text \<open>
  Claim C7. With a cooldown of 30 seconds and a request of the user recorded at time
  \<open>t\<close> (the claim's \<open>t = 0\<close>), \<^verbatim>\<open>check_rate_limit\<close> returns 21 ten seconds later and 0
  thirty-one seconds later; for a user with no recorded request it returns 0.
\<close>

theorem rate_limit_cooldown_30:
  "check_rate_limit (cfg\<lparr>RATE_LIMIT_SECONDS := 30\<rparr>) (update_rate_limit w t user_id)
      (t + 10) user_id = 21
   \<and> check_rate_limit (cfg\<lparr>RATE_LIMIT_SECONDS := 30\<rparr>) (update_rate_limit w t user_id)
      (t + 31) user_id = 0
   \<and> (last_request_time w user_id = None \<longrightarrow> check_rate_limit cfg w now user_id = 0)"
  by (simp add: check_rate_limit_def update_rate_limit_def)

theorem rate_limit_cooldown_30_witness:
  "RATE_LIMIT_SECONDS sample_config = 30
   \<and> check_rate_limit sample_config (update_rate_limit empty_world 0 7) 10 7 = 21
   \<and> check_rate_limit sample_config (update_rate_limit empty_world 0 7) 31 7 = 0
   \<and> last_request_time empty_world 7 = None
   \<and> check_rate_limit sample_config empty_world 12345 7 = 0"
  using rate_limit_cooldown_30 [of sample_config empty_world 0 7 12345]
  by (simp add: sample_config_def empty_world_def)

section \<open>Request handler\<close>

text \<open>
  Claim C5. Take a request that passes the length check, the rate-limit check and the
  balance check, and let the generation backend raise. Then the handler reports the
  failure, the \<^verbatim>\<open>users\<close> table is as before (so the balance and \<^verbatim>\<open>total_recipes\<close> of
  the user are untouched), and the rate-limit entry of the user is the time stamped
  at the start of the attempt, although the backend was called.
\<close>

theorem generation_failure_no_debit:
  assumes "int (length user_input) \<le> MAX_PROMPT_LENGTH cfg"
    and "check_rate_limit cfg w (now_check e) user_id \<le> 0"
    and "0 < fst (get_balance w user_id)"
    and "backend e user_input = Inl err"
  shows "let (out, w') = generate_recipe_for_user cfg e w user_id user_input
         in out = GenerationFailed err
          \<and> users w' = users w
          \<and> fst (get_balance w' user_id) = fst (get_balance w user_id)
          \<and> map_option total_recipes (users w' user_id)
              = map_option total_recipes (users w user_id)
          \<and> last_request_time w' user_id = Some (now_stamp e)
          \<and> backend_calls w' = backend_calls w @ [user_input]"
  using assms
  by (simp add: generate_recipe_for_user_def Let_def get_balance_def get_user_def
        update_rate_limit_def)

theorem generation_failure_no_debit_witness:
  "int (length [114, 105, 99, 101 :: nat]) \<le> MAX_PROMPT_LENGTH sample_config
   \<and> check_rate_limit sample_config sample_world (now_check (sample_env 50 failing_backend)) 7 \<le> 0
   \<and> 0 < fst (get_balance sample_world 7)
   \<and> backend (sample_env 50 failing_backend) [114, 105, 99, 101] = Inl ''timeout''
   \<and> (let (out, w') = generate_recipe_for_user sample_config (sample_env 50 failing_backend)
                         sample_world 7 [114, 105, 99, 101]
       in out = GenerationFailed ''timeout''
        \<and> users w' = users sample_world
        \<and> fst (get_balance w' 7) = 3
        \<and> map_option total_recipes (users w' 7) = Some 0
        \<and> last_request_time w' 7 = Some 51
        \<and> backend_calls w' = [[114, 105, 99, 101]])"
proof -
  have h1: "int (length [114, 105, 99, 101 :: nat]) \<le> MAX_PROMPT_LENGTH sample_config"
    by (simp add: sample_config_def)
  have h2: "check_rate_limit sample_config sample_world
              (now_check (sample_env 50 failing_backend)) 7 \<le> 0"
    by (simp add: check_rate_limit_def sample_world_def empty_world_def)
  have h3: "0 < fst (get_balance sample_world 7)"
    by (simp add: get_balance_def get_user_def sample_world_def empty_world_def sample_user_def)
  have h4: "backend (sample_env 50 failing_backend) [114, 105, 99, 101] = Inl ''timeout''"
    by (simp add: sample_env_def failing_backend_def)
  have v: "fst (get_balance sample_world 7) = 3" "users sample_world 7 = Some sample_user"
    "total_recipes sample_user = 0" "now_stamp (sample_env 50 failing_backend) = 51"
    "backend_calls sample_world = []"
    by (simp_all add: get_balance_def get_user_def sample_world_def empty_world_def
          sample_user_def sample_env_def)
  show ?thesis
    using h1 h2 h3 h4 v generation_failure_no_debit [OF h1 h2 h3 h4]
    by (simp add: case_prod_beta)
qed

text \<open>
  Claim C6 (amended). A request of a user whose balance is zero or less never reaches
  the generation backend and changes nothing: it is rejected as too long when the
  prompt exceeds \<^verbatim>\<open>MAX_PROMPT_LENGTH\<close>, otherwise with the waiting time when the rate
  limiter asks for one, and otherwise as insufficient balance. In particular, a user
  created with three free recipes has balance 0 after three fulfilled requests, and a
  fourth request that passes the length and rate-limit checks is rejected as
  insufficient balance with the world, and so the list of backend calls, unchanged.
\<close>

theorem zero_balance_never_reaches_backend:
  "(fst (get_balance w user_id) \<le> 0 \<longrightarrow>
      generate_recipe_for_user cfg e w user_id user_input =
        ((if int (length user_input) > MAX_PROMPT_LENGTH cfg then TooLong
          else if check_rate_limit cfg w (now_check e) user_id > 0
               then RateLimited (check_rate_limit cfg w (now_check e) user_id)
               else InsufficientBalance), w))
   \<and> (users w user_id = None \<and> FREE_RECIPES_ON_START cfg = 3
       \<and> w0 = snd (get_or_create_user cfg w now user_id new_username new_full_name)
       \<and> generate_recipe_for_user cfg e1 w0 user_id input1 = (Fulfilled r1 b1, w1)
       \<and> generate_recipe_for_user cfg e2 w1 user_id input2 = (Fulfilled r2 b2, w2)
       \<and> generate_recipe_for_user cfg e3 w2 user_id input3 = (Fulfilled r3 b3, w3)
       \<and> int (length input4) \<le> MAX_PROMPT_LENGTH cfg
       \<and> check_rate_limit cfg w3 (now_check e4) user_id \<le> 0
      \<longrightarrow> fst (get_balance w0 user_id) = 3
        \<and> fst (get_balance w3 user_id) = 0
        \<and> generate_recipe_for_user cfg e4 w3 user_id input4 = (InsufficientBalance, w3))"
proof (intro conjI impI)
  assume "fst (get_balance w user_id) \<le> 0"
  then show "generate_recipe_for_user cfg e w user_id user_input =
        ((if int (length user_input) > MAX_PROMPT_LENGTH cfg then TooLong
          else if check_rate_limit cfg w (now_check e) user_id > 0
               then RateLimited (check_rate_limit cfg w (now_check e) user_id)
               else InsufficientBalance), w)"
    by (rule rejected_without_balance)
next
  assume a: "users w user_id = None \<and> FREE_RECIPES_ON_START cfg = 3
       \<and> w0 = snd (get_or_create_user cfg w now user_id new_username new_full_name)
       \<and> generate_recipe_for_user cfg e1 w0 user_id input1 = (Fulfilled r1 b1, w1)
       \<and> generate_recipe_for_user cfg e2 w1 user_id input2 = (Fulfilled r2 b2, w2)
       \<and> generate_recipe_for_user cfg e3 w2 user_id input3 = (Fulfilled r3 b3, w3)
       \<and> int (length input4) \<le> MAX_PROMPT_LENGTH cfg
       \<and> check_rate_limit cfg w3 (now_check e4) user_id \<le> 0"
  then have fresh: "users w user_id = None" and free: "FREE_RECIPES_ON_START cfg = 3"
    and w0: "w0 = snd (get_or_create_user cfg w now user_id new_username new_full_name)"
    and g1: "generate_recipe_for_user cfg e1 w0 user_id input1 = (Fulfilled r1 b1, w1)"
    and g2: "generate_recipe_for_user cfg e2 w1 user_id input2 = (Fulfilled r2 b2, w2)"
    and g3: "generate_recipe_for_user cfg e3 w2 user_id input3 = (Fulfilled r3 b3, w3)"
    and len4: "int (length input4) \<le> MAX_PROMPT_LENGTH cfg"
    and rate4: "check_rate_limit cfg w3 (now_check e4) user_id \<le> 0"
    by blast+
  have b0: "fst (get_balance w0 user_id) = 3"
    using fresh free by (simp add: w0 get_or_create_user_def get_balance_def get_user_def Let_def)
  have b1: "fst (get_balance w1 user_id) = fst (get_balance w0 user_id) - 1"
    using g1 by (rule fulfilled_balance)
  have b2: "fst (get_balance w2 user_id) = fst (get_balance w1 user_id) - 1"
    using g2 by (rule fulfilled_balance)
  have b3: "fst (get_balance w3 user_id) = fst (get_balance w2 user_id) - 1"
    using g3 by (rule fulfilled_balance)
  have z: "fst (get_balance w3 user_id) = 0"
    using b0 b1 b2 b3 by simp
  show "fst (get_balance w0 user_id) = 3" by (rule b0)
  show "fst (get_balance w3 user_id) = 0" by (rule z)
  have "fst (get_balance w3 user_id) \<le> 0" using z by simp
  then show "generate_recipe_for_user cfg e4 w3 user_id input4 = (InsufficientBalance, w3)"
    using len4 rate4 rejected_without_balance [of w3 user_id cfg e4 input4] by simp
qed

theorem zero_balance_never_reaches_backend_witness:
  "let cfg = sample_config; p = [114, 105, 99, 101];
       w0 = snd (get_or_create_user cfg empty_world ''2026-01-01 10:00:00'' 7
                   ''cook'' ''Sample Cook'');
       s1 = generate_recipe_for_user cfg (sample_env 0 ok_backend) w0 7 p;
       s2 = generate_recipe_for_user cfg (sample_env 100 ok_backend) (snd s1) 7 p;
       s3 = generate_recipe_for_user cfg (sample_env 200 ok_backend) (snd s2) 7 p;
       s4 = generate_recipe_for_user cfg (sample_env 300 ok_backend) (snd s3) 7 p
   in users empty_world 7 = None \<and> FREE_RECIPES_ON_START cfg = 3
    \<and> fst s1 = Fulfilled (p @ [33]) 2
    \<and> fst s2 = Fulfilled (p @ [33]) 1
    \<and> fst s3 = Fulfilled (p @ [33]) 0
    \<and> int (length p) \<le> MAX_PROMPT_LENGTH cfg
    \<and> check_rate_limit cfg (snd s3) (now_check (sample_env 300 ok_backend)) 7 \<le> 0
    \<and> fst (get_balance w0 7) = 3
    \<and> fst (get_balance (snd s3) 7) = 0
    \<and> s4 = (InsufficientBalance, snd s3)
    \<and> backend_calls (snd s4) = [p, p, p]
    \<and> fst (get_balance empty_world 7) \<le> 0
    \<and> generate_recipe_for_user cfg (sample_env 0 ok_backend) empty_world 7 p
        = (InsufficientBalance, empty_world)"
proof -
  define p :: pystr where "p = [114, 105, 99, 101]"
  define w0 where "w0 = snd (get_or_create_user sample_config empty_world
    ''2026-01-01 10:00:00'' 7 ''cook'' ''Sample Cook'')"
  define s1 where "s1 = generate_recipe_for_user sample_config (sample_env 0 ok_backend) w0 7 p"
  define s2 where
    "s2 = generate_recipe_for_user sample_config (sample_env 100 ok_backend) (snd s1) 7 p"
  define s3 where
    "s3 = generate_recipe_for_user sample_config (sample_env 200 ok_backend) (snd s2) 7 p"
  note defs = generate_recipe_for_user_def check_rate_limit_def update_rate_limit_def
    get_balance_def get_user_def deduct_token_def save_recipe_def logger_def
    get_or_create_user_def sample_config_def sample_env_def ok_backend_def empty_world_def
    Let_def
  have f1: "fst s1 = Fulfilled (p @ [33]) 2"
    by (simp add: s1_def w0_def p_def defs)
  have f2: "fst s2 = Fulfilled (p @ [33]) 1"
    by (simp add: s2_def s1_def w0_def p_def defs)
  have f3: "fst s3 = Fulfilled (p @ [33]) 0"
    by (simp add: s3_def s2_def s1_def w0_def p_def defs)
  have g1: "generate_recipe_for_user sample_config (sample_env 0 ok_backend) w0 7 p
      = (Fulfilled (p @ [33]) 2, snd s1)"
    using f1 by (simp add: s1_def prod_eq_iff)
  have g2: "generate_recipe_for_user sample_config (sample_env 100 ok_backend) (snd s1) 7 p
      = (Fulfilled (p @ [33]) 1, snd s2)"
    using f2 by (simp add: s2_def prod_eq_iff)
  have g3: "generate_recipe_for_user sample_config (sample_env 200 ok_backend) (snd s2) 7 p
      = (Fulfilled (p @ [33]) 0, snd s3)"
    using f3 by (simp add: s3_def prod_eq_iff)
  have fresh: "users empty_world 7 = None" by (simp add: empty_world_def)
  have free: "FREE_RECIPES_ON_START sample_config = 3" by (simp add: sample_config_def)
  have len: "int (length p) \<le> MAX_PROMPT_LENGTH sample_config"
    by (simp add: p_def sample_config_def)
  have rate: "check_rate_limit sample_config (snd s3)
                (now_check (sample_env 300 ok_backend)) 7 \<le> 0"
    by (simp add: s3_def s2_def s1_def w0_def p_def defs)
  have calls: "backend_calls (snd s3) = [p, p, p]"
    by (simp add: s3_def s2_def s1_def w0_def p_def defs)
  have nobal: "fst (get_balance empty_world 7) \<le> 0"
    by (simp add: get_balance_def get_user_def empty_world_def)
  have norate: "check_rate_limit sample_config empty_world
                  (now_check (sample_env 0 ok_backend)) 7 = 0"
    by (simp add: check_rate_limit_def empty_world_def)
  note inst = zero_balance_never_reaches_backend
     [where w = empty_world and user_id = 7 and cfg = sample_config
      and e = "sample_env 0 ok_backend" and user_input = p
      and ?w0.0 = w0 and now = "''2026-01-01 10:00:00''" and new_username = "''cook''"
      and new_full_name = "''Sample Cook''"
      and ?e1.0 = "sample_env 0 ok_backend" and ?input1.0 = p
      and ?r1.0 = "p @ [33]" and ?b1.0 = 2 and ?w1.0 = "snd s1"
      and ?e2.0 = "sample_env 100 ok_backend" and ?input2.0 = p
      and ?r2.0 = "p @ [33]" and ?b2.0 = 1 and ?w2.0 = "snd s2"
      and ?e3.0 = "sample_env 200 ok_backend" and ?input3.0 = p
      and ?r3.0 = "p @ [33]" and ?b3.0 = 0 and ?w3.0 = "snd s3"
      and ?e4.0 = "sample_env 300 ok_backend" and ?input4.0 = p]
  have part1: "generate_recipe_for_user sample_config (sample_env 0 ok_backend) empty_world 7 p
        = (InsufficientBalance, empty_world)"
    using inst nobal norate len by simp
  have part2: "fst (get_balance w0 7) = 3 \<and> fst (get_balance (snd s3) 7) = 0
      \<and> generate_recipe_for_user sample_config (sample_env 300 ok_backend) (snd s3) 7 p
          = (InsufficientBalance, snd s3)"
    using inst fresh free g1 g2 g3 len rate by (simp add: w0_def)
  show ?thesis
    unfolding Let_def
    using fresh free f1 f2 f3 len rate calls nobal part1 part2
    by (simp add: p_def [symmetric] w0_def [symmetric] s1_def [symmetric] s2_def [symmetric]
          s3_def [symmetric])
qed

text \<open>
  The claim as first stated has every request of a user with balance zero rejected as
  insufficient balance. User 7 with balance 0 and a request recorded at time 0 is told
  to wait 21 seconds at time 10, and a prompt of 501 characters is rejected as too
  long: the length and rate-limit checks come before the balance check.
\<close>

theorem zero_balance_not_always_insufficient:
  "let w = sample_world\<lparr>users := [7 \<mapsto> sample_user\<lparr>tokens_balance := 0\<rparr>],
                         last_request_time := [7 \<mapsto> 0]\<rparr>
   in fst (get_balance w 7) = 0
    \<and> fst (generate_recipe_for_user sample_config (sample_env 10 ok_backend) w 7
             [114, 105, 99, 101])
        = RateLimited 21
    \<and> fst (generate_recipe_for_user sample_config (sample_env 31 ok_backend) w 7
             (replicate 501 97))
        = TooLong"
  by (simp add: Let_def generate_recipe_for_user_def check_rate_limit_def get_balance_def
        get_user_def sample_world_def empty_world_def sample_user_def sample_config_def
        sample_env_def)

end
